theory Spec2Isabelle
  imports Main "HOL-Library.AList"
begin

section \<open>JSON values\<close>

text \<open>
  The values that \<^verbatim>\<open>main.js\<close> reads from its JSON documents and writes into the
  configuration object. An object is an association list in the order in which
  \<^verbatim>\<open>Object.keys\<close> lists its properties; the property \<open>k\<close> of an object is the
  first binding of \<open>k\<close>. \<open>JUndef\<close> is JavaScript's \<^verbatim>\<open>undefined\<close>, which is also
  what reading a hole of a sparse array gives. Numbers are integers: the program only
  tests them for truthiness and copies them.
\<close>

datatype json =
    JUndef
  | JNull
  | JBool bool
  | JNum int
  | JStr string
  | JArr "json list"
  | JObj "(string \<times> json) list"

fun truthy :: "json \<Rightarrow> bool" where
  "truthy JUndef = False"
| "truthy JNull = False"
| "truthy (JBool b) = b"
| "truthy (JNum n) = (n \<noteq> 0)"
| "truthy (JStr s) = (s \<noteq> [])"
| "truthy (JArr xs) = True"
| "truthy (JObj kvs) = True"

text \<open>
  What the program can throw, and what the model leaves out. \<open>FetchFailed\<close> is the
  rejection of a \<^verbatim>\<open>fetch\<close> or of the parsing of its response. \<open>Unmodelled\<close> marks a
  run that leaves the fragment of JavaScript embedded here (a property that would be
  found on \<^verbatim>\<open>Object.prototype\<close>, a coercion of a value of the wrong type, a
  property of a primitive); it is not an exception of the program.
\<close>

datatype error = TypeError | FetchFailed | Unmodelled

definition bind :: "error + 'a \<Rightarrow> ('a \<Rightarrow> error + 'b) \<Rightarrow> error + 'b" where
  "bind m f = (case m of Inl e \<Rightarrow> Inl e | Inr x \<Rightarrow> f x)"

definition object_prototype_names :: "string list" where
  "object_prototype_names =
     [''constructor'', ''__proto__'', ''hasOwnProperty'', ''isPrototypeOf'',
      ''propertyIsEnumerable'', ''toLocaleString'', ''toString'', ''valueOf'',
      ''__defineGetter__'', ''__defineSetter__'', ''__lookupGetter__'',
      ''__lookupSetter__'']"

definition inherited :: "string \<Rightarrow> bool" where
  "inherited k = (k \<in> set object_prototype_names)"

text \<open>\<^verbatim>\<open>data?.[k]\<close>: the property \<open>k\<close> of \<open>data\<close>, \<^verbatim>\<open>undefined\<close> when \<open>data\<close> is nullish.\<close>

fun get_prop :: "json \<Rightarrow> string \<Rightarrow> error + json" where
  "get_prop JUndef k = Inr JUndef"
| "get_prop JNull k = Inr JUndef"
| "get_prop (JObj kvs) k =
     (case map_of kvs k of
        Some v \<Rightarrow> Inr v
      | None \<Rightarrow> if inherited k then Inl Unmodelled else Inr JUndef)"
| "get_prop v k = Inl Unmodelled"

section \<open>The document tree\<close>

datatype tag = DETAILS | DIV | SUMMARY | OL | LI | BUTTON | SELECT | OPTION | INPUT | B | EM

text \<open>
  The state of a form control: the value of a text input; the value of a number input,
  which the browser keeps either empty (\<open>None\<close>) or a number; the value and
  selectedness of an option.
\<close>

datatype control =
    NoControl
  | TextInput string
  | NumberInput "int option"
  | OptionEl string bool

text \<open>
  An \<^verbatim>\<open>onclick\<close> closure, by the variables it captures: \<open>AddListEntry path item small
  defaultData\<close> is \<^verbatim>\<open>() => addListEntry(defaultData)\<close> of a list at \<open>path\<close> with
  entries of schema \<open>item\<close>; \<open>RemoveEntry\<close> is \<^verbatim>\<open>() => el.remove()\<close> of a list
  entry; \<open>PreviewFile\<close> opens the selected query file.
\<close>

datatype handler =
    NoHandler
  | AddListEntry "string option list" json bool json
  | RemoveEntry
  | PreviewFile

record attrs =
  dkey :: "string option"
  classes :: "string list"
  is_open :: bool
  control :: control
  min_attr :: "int option"
  onclick :: handler

datatype node = Text string | Elem tag attrs "node list"

definition blank :: attrs where
  "blank = \<lparr>dkey = None, classes = [], is_open = False, control = NoControl,
            min_attr = None, onclick = NoHandler\<rparr>"

fun tagName :: "node \<Rightarrow> tag option" where
  "tagName (Text s) = None"
| "tagName (Elem t a kids) = Some t"

fun attrs_of :: "node \<Rightarrow> attrs" where
  "attrs_of (Text s) = blank"
| "attrs_of (Elem t a kids) = a"

fun children :: "node \<Rightarrow> node list" where
  "children (Text s) = []"
| "children (Elem t a kids) = kids"

fun appendChild :: "node \<Rightarrow> node \<Rightarrow> node" where
  "appendChild (Elem t a kids) el = Elem t a (kids @ [el])"
| "appendChild (Text s) el = Text s"

fun classList_add :: "node \<Rightarrow> string \<Rightarrow> node" where
  "classList_add (Elem t a kids) c =
     Elem t (a\<lparr>classes := (if c \<in> set (classes a) then classes a else classes a @ [c])\<rparr>) kids"
| "classList_add (Text s) c = Text s"

fun set_open :: "node \<Rightarrow> bool \<Rightarrow> node" where
  "set_open (Elem t a kids) b = Elem t (a\<lparr>is_open := b\<rparr>) kids"
| "set_open (Text s) b = Text s"

section \<open>The schema documents\<close>

text \<open>
  \<^verbatim>\<open>descriptions\<close> maps a path string to a pair of a name and a long description,
  \<^verbatim>\<open>selects\<close> maps it to a pair of an option list (value and description) and a
  default value, \<^verbatim>\<open>defaults\<close> maps it to any JSON value. They are typed here the
  way the program destructures them.
\<close>

type_synonym descriptions = "(string \<times> string \<times> string) list"
type_synonym selects = "(string \<times> (string \<times> string) list \<times> string option) list"
type_synonym defaults = "(string \<times> json) list"

record docs =
  descriptions :: descriptions
  defaults :: defaults

fun join :: "string \<Rightarrow> string list \<Rightarrow> string" where
  "join sep [] = []"
| "join sep [x] = x"
| "join sep (x # y # ys) = x @ sep @ join sep (y # ys)"

text \<open>
  A path is the list of the \<^verbatim>\<open>dataset.key\<close> of its elements; a list index in the
  path, which has no \<^verbatim>\<open>dataset\<close>, is \<open>None\<close>.
\<close>

definition pathToString :: "string option list \<Rightarrow> string option \<Rightarrow> string" where
  "pathToString path k =
     (let pinterm = map (\<lambda>x. case x of Some s \<Rightarrow> (if s \<noteq> [] then s else ''_'') | None \<Rightarrow> ''_'') path
      in join '':'' (case k of Some s \<Rightarrow> (if s \<noteq> [] then pinterm @ [s] else pinterm)
                             | None \<Rightarrow> pinterm))"

definition desc :: "docs \<Rightarrow> string option list \<Rightarrow> string option \<Rightarrow> string \<times> string" where
  "desc d path k =
     (let pstr = pathToString path k
      in case map_of (descriptions d) pstr of Some nl \<Rightarrow> nl | None \<Rightarrow> (pstr, ''?''))"

definition default_at :: "docs \<Rightarrow> string option list \<Rightarrow> json" where
  "default_at d path =
     (case map_of (defaults d) (pathToString path None) of Some v \<Rightarrow> v | None \<Rightarrow> JUndef)"

section \<open>Element constructors\<close>

text \<open>
  \<^verbatim>\<open>createItem\<close> sets \<^verbatim>\<open>innerHTML\<close> from the name and the description, which the
  source trusts to be plain text ("we can trust the config in name + description"): the
  header is the element that this markup parses to for plain text.
\<close>

definition createItem :: "string option \<Rightarrow> string \<Rightarrow> string \<Rightarrow> bool \<Rightarrow> node" where
  "createItem key name description small =
     Elem (if small then DIV else DETAILS)
       (blank\<lparr>classes := [if small then ''sitem'' else ''item''],
              dkey := (case key of Some k \<Rightarrow> (if k \<noteq> [] then Some k else None) | None \<Rightarrow> None)\<rparr>)
       [Elem (if small then DIV else SUMMARY) blank
          [Elem B blank [Text name], Text '' '', Elem EM blank [Text description]]]"

text \<open>
  \<^verbatim>\<open>createListItem\<close> appends an empty list and the Add button to \<open>el\<close> and hands both
  to its caller, which fills the list and sets the button's label and handler through
  these references. Here the caller passes the final children of the list, the suffix of
  the label and the handler.
\<close>

definition createListItem :: "node \<Rightarrow> node list \<Rightarrow> string \<Rightarrow> handler \<Rightarrow> node" where
  "createListItem el entries label h =
     appendChild
       (appendChild (classList_add el ''listparent'') (Elem OL blank entries))
       (Elem BUTTON (blank\<lparr>classes := [''add''], onclick := h\<rparr>) [Text (''+ Add'' @ label)])"

definition createSelect :: "(string \<times> string) list \<Rightarrow> string option \<Rightarrow> node" where
  "createSelect options selected =
     Elem SELECT blank
       (map (\<lambda>(option, description).
               Elem OPTION (blank\<lparr>control := OptionEl option (Some option = selected)\<rparr>)
                 [Text (if description \<noteq> [] then option @ '' - '' @ description else option)])
          options)"

text \<open>
  \<^verbatim>\<open>createListElItem\<close> returns the list entry and the item inside it; the entry is
  \<open>listEntry c\<close> for the item \<open>c\<close>, before and after the caller has filled \<open>c\<close>.
\<close>

definition listEntry :: "node \<Rightarrow> node" where
  "listEntry c = Elem LI blank [c]"

definition createListElItem :: "string \<Rightarrow> string \<Rightarrow> node \<times> node" where
  "createListElItem name description =
     (let c = appendChild (createItem None name description False)
                (Elem BUTTON (blank\<lparr>classes := [''del''], onclick := RemoveEntry\<rparr>)
                   [Text ''x Delete''])
      in (listEntry c, c))"

section \<open>The tree builder\<close>

definition endsWith :: "string \<Rightarrow> string \<Rightarrow> bool" where
  "endsWith s suf = (length suf \<le> length s \<and> drop (length s - length suf) s = suf)"

text \<open>The browser strips line breaks from the value of a text input.\<close>

definition strip_newlines :: "string \<Rightarrow> string" where
  "strip_newlines s = filter (\<lambda>c. c \<noteq> CHR 0x0A \<and> c \<noteq> CHR 0x0D) s"

text \<open>\<^verbatim>\<open>el.value = x\<close> on a text input, for the \<open>x\<close> whose conversion to a string is modelled.\<close>

fun text_value :: "json \<Rightarrow> error + string" where
  "text_value (JStr s) = Inr (strip_newlines s)"
| "text_value v = Inl Unmodelled"

text \<open>
  \<^verbatim>\<open>el.value = x\<close> on a number input: a number stays, a string that is no number
  (\<^verbatim>\<open>"true"\<close>, \<^verbatim>\<open>"[object Object]"\<close>) leaves the input empty.
\<close>

fun number_value :: "json \<Rightarrow> error + int option" where
  "number_value (JNum n) = Inr (Some n)"
| "number_value (JBool b) = Inr None"
| "number_value (JObj kvs) = Inr None"
| "number_value v = Inl Unmodelled"

text \<open>\<^verbatim>\<open>x || 0\<close>\<close>

definition or_zero :: "json \<Rightarrow> json" where
  "or_zero x = (if truthy x then x else JNum 0)"

text \<open>The values that \<^verbatim>\<open>for (let k of data)\<close> binds, run only when \<open>data\<close> is truthy.\<close>

fun iterate :: "json \<Rightarrow> error + json list" where
  "iterate (JArr xs) = Inr xs"
| "iterate (JStr s) = Inr (map (\<lambda>c. JStr [c]) s)"
| "iterate v = (if truthy v then Inl TypeError else Inr [])"

definition is_small :: "json \<Rightarrow> bool" where
  "is_small item = (case item of JStr s \<Rightarrow> True | JNum n \<Rightarrow> True | _ \<Rightarrow> False)"

definition previewButton :: node where
  "previewButton = Elem BUTTON (blank\<lparr>classes := [''view_btn''], onclick := PreviewFile\<rparr>) [Text ''Preview'']"

definition is_query_file :: "string \<Rightarrow> bool" where
  "is_query_file opt = (endsWith opt ''.rq'' \<or> endsWith opt ''.sparql'' \<or> opt = [])"

text \<open>The element that the loop over the keys of an object creates for the key \<open>k\<close>.\<close>

definition keyItem :: "docs \<Rightarrow> string option list \<Rightarrow> string \<Rightarrow> json \<Rightarrow> node" where
  "keyItem d path k v =
     (let small = is_small v;
          (dName, dLong) = desc d path (Some k)
      in createItem (Some k) dName dLong small)"

text \<open>The item of a new list entry, before its children are created.\<close>

definition entryItem :: "docs \<Rightarrow> string option list \<Rightarrow> bool \<Rightarrow> node" where
  "entryItem d path small =
     (let (dName, dLong) = desc d path (Some ''_'');
          (listEntryEl, childDetailsEl) = createListElItem dName dLong
      in set_open childDetailsEl small)"

definition addLabel :: "docs \<Rightarrow> string option list \<Rightarrow> string" where
  "addLabel d path =
     (let dName = fst (desc d path (Some ''_'')) in if dName \<noteq> [] then '' '' @ dName else [])"

definition first_item :: "json list \<Rightarrow> json" where
  "first_item items = (case items of [] \<Rightarrow> JUndef | x # xs \<Rightarrow> x)"

text \<open>
  The string input for a path that has a list of options: the value to select and the
  options, to which a value of the data that is not among them is added.
\<close>

definition select_choice ::
    "(string \<times> string) list \<Rightarrow> string option \<Rightarrow> json \<Rightarrow> error + string option \<times> (string \<times> string) list" where
  "select_choice opts dflt data =
     (if truthy data
      then (case data of
              JStr v \<Rightarrow> Inr (Some v, if v \<in> set (map fst opts) then opts else opts @ [(v, [])])
            | _ \<Rightarrow> Inl Unmodelled)
      else Inr (dflt, opts))"

definition appendSelect :: "node \<Rightarrow> (string \<times> string) list \<Rightarrow> string option \<Rightarrow> node" where
  "appendSelect current opts val =
     (let el = createSelect opts val;
          current1 = appendChild current el
      in if list_all (\<lambda>opt. is_query_file (fst opt)) opts
         then appendChild current1 previewButton else current1)"

definition text_input_value :: "docs \<Rightarrow> string option list \<Rightarrow> json \<Rightarrow> error + string" where
  "text_input_value d path data =
     (if truthy data then text_value data
      else (let defaultValue = default_at d path
            in if truthy defaultValue then text_value defaultValue else Inr []))"

definition number_input_value :: "docs \<Rightarrow> string option list \<Rightarrow> json \<Rightarrow> error + int option" where
  "number_input_value d path data =
     (if data \<noteq> JNull \<and> data \<noteq> JUndef then number_value (or_zero data)
      else number_value (or_zero (default_at d path)))"

text \<open>
  \<open>createItemsRecursively d path current item data sel\<close> returns \<open>current\<close> with the
  elements for \<open>item\<close> appended, and the \<^verbatim>\<open>selects\<close> document, to which it adds the
  options that \<open>data\<close> needs. \<open>createItemsOfKeys\<close> is its loop over the keys of an
  object, \<open>addListEntries\<close> its loop over the data of a list, which calls
  \<^verbatim>\<open>addListEntry\<close> for each element and returns the entries of the list.
\<close>

function (sequential) createItemsRecursively ::
    "docs \<Rightarrow> string option list \<Rightarrow> node \<Rightarrow> json \<Rightarrow> json \<Rightarrow> selects \<Rightarrow> error + node \<times> selects"
  and createItemsOfKeys ::
    "docs \<Rightarrow> string option list \<Rightarrow> node \<Rightarrow> (string \<times> json) list \<Rightarrow> json \<Rightarrow> selects \<Rightarrow> error + node \<times> selects"
  and addListEntries ::
    "docs \<Rightarrow> string option list \<Rightarrow> json \<Rightarrow> json list \<Rightarrow> selects \<Rightarrow> error + node list \<times> selects"
where
  "createItemsRecursively d path current (JObj kvs) data sel =
     createItemsOfKeys d path current kvs data sel"
| "createItemsRecursively d path current (JArr items) data sel =
     bind (iterate data) (\<lambda>ks.
     bind (addListEntries d path (first_item items) ks sel) (\<lambda>r.
       Inr (createListItem current (fst r) (addLabel d path)
              (AddListEntry path (first_item items) (is_small (first_item items)) (default_at d path)),
            snd r)))"
| "createItemsRecursively d path current (JStr s) data sel =
     (case map_of sel (pathToString path None) of
        Some select \<Rightarrow>
          bind (select_choice (fst select) (snd select) data) (\<lambda>r.
            Inr (appendSelect current (snd r) (fst r),
                 AList.update (pathToString path None) (snd r, snd select) sel))
      | None \<Rightarrow>
          bind (text_input_value d path data) (\<lambda>v.
            Inr (appendChild current (Elem INPUT (blank\<lparr>control := TextInput v\<rparr>) []), sel)))"
| "createItemsRecursively d path current (JNum n) data sel =
     bind (number_input_value d path data) (\<lambda>v.
       Inr (appendChild current
              (Elem INPUT (blank\<lparr>control := NumberInput v, min_attr := Some 0\<rparr>) []), sel))"
| "createItemsRecursively d path current JUndef data sel = Inr (current, sel)"
| "createItemsRecursively d path current JNull data sel = Inr (current, sel)"
| "createItemsRecursively d path current (JBool b) data sel = Inr (current, sel)"
| "createItemsOfKeys d path current [] data sel = Inr (current, sel)"
| "createItemsOfKeys d path current (kv # kvs) data sel =
     (if inherited (fst kv) then Inl Unmodelled
      else
        bind (get_prop data (fst kv)) (\<lambda>datak.
        bind (createItemsRecursively d (path @ [dkey (attrs_of (keyItem d path (fst kv) (snd kv)))])
                (keyItem d path (fst kv) (snd kv)) (snd kv) datak sel) (\<lambda>r.
          createItemsOfKeys d path (appendChild current (fst r)) kvs data (snd r))))"
| "addListEntries d path item [] sel = Inr ([], sel)"
| "addListEntries d path item (k # ks) sel =
     bind (createItemsRecursively d (path @ [None]) (entryItem d path (is_small item)) item k sel) (\<lambda>r.
     bind (addListEntries d path item ks (snd r)) (\<lambda>rs.
       Inr (listEntry (fst r) # fst rs, snd rs)))"
  by pat_completeness auto



termination
  apply (relation "measures
     [\<lambda>x. case x of
             Inl (d, path, current, item, data, sel) \<Rightarrow> size item
           | Inr (Inl (d, path, current, kvs, data, sel)) \<Rightarrow> size_list (size_prod (\<lambda>k. 0) size) kvs
           | Inr (Inr (d, path, item, ks, sel)) \<Rightarrow> size item,
      \<lambda>x. case x of
             Inl (d, path, current, item, data, sel) \<Rightarrow> 0
           | Inr (Inl (d, path, current, kvs, data, sel)) \<Rightarrow> 0
           | Inr (Inr (d, path, item, ks, sel)) \<Rightarrow> Suc (length ks)]")
  subgoal by simp
  subgoal by simp
  subgoal for d path current items data sel x
    by (cases items) (simp_all add: first_item_def)
  subgoal for d path current kv kvs data sel x
    by (cases kv) simp
  subgoal by simp
  subgoal by simp
  subgoal by simp
  done

text \<open>\<^verbatim>\<open>addListEntry(data_)\<close> of the list at \<open>path\<close>: the new entry of the list.\<close>

definition addListEntry ::
    "docs \<Rightarrow> string option list \<Rightarrow> json \<Rightarrow> json \<Rightarrow> selects \<Rightarrow> error + node \<times> selects" where
  "addListEntry d path item edata sel =
     bind (createItemsRecursively d (path @ [None]) (entryItem d path (is_small item)) item edata sel)
       (\<lambda>r. Inr (listEntry (fst r), snd r))"

section \<open>The config serializer\<close>

text \<open>
  The value of a select: the value of the option that is selected, which is the last one
  that was given selectedness when several were, and the first option when none was.
\<close>

fun option_of :: "node \<Rightarrow> (string \<times> bool) list" where
  "option_of (Elem t a kids) =
     (case control a of OptionEl v s \<Rightarrow> (if t = OPTION then [(v, s)] else []) | _ \<Rightarrow> [])"
| "option_of (Text s) = []"

definition select_value :: "node list \<Rightarrow> string" where
  "select_value kids =
     (let os = concat (map option_of kids); sel = filter snd os
      in if sel \<noteq> [] then fst (last sel) else (case os of [] \<Rightarrow> [] | (v, s) # rest \<Rightarrow> v))"

text \<open>\<^verbatim>\<open>el.value\<close>, passed through \<^verbatim>\<open>Number\<close> for a number input: an empty one gives 0.\<close>

fun el_value :: "node \<Rightarrow> json" where
  "el_value (Elem t a kids) =
     (if t = SELECT then JStr (select_value kids)
      else if t = INPUT then
        (case control a of
           NumberInput v \<Rightarrow> JNum (case v of Some n \<Rightarrow> n | None \<Rightarrow> 0)
         | TextInput s \<Rightarrow> JStr s
         | _ \<Rightarrow> JStr [])
      else JUndef)"
| "el_value (Text s) = JUndef"

text \<open>
  \<^verbatim>\<open>$$("#main [data-key] select, #main [data-key] input")\<close>, in document order. Each
  element found comes as its chain of ancestors: the element itself first, then its
  parent, up to the child of \<^verbatim>\<open>main\<close>, each with the number of its previous
  siblings. \<open>keyed\<close> tells that an ancestor below \<^verbatim>\<open>main\<close> has the attribute
  \<^verbatim>\<open>data-key\<close>.
\<close>

type_synonym chain = "(node \<times> nat) list"

fun select_inputs :: "chain \<Rightarrow> bool \<Rightarrow> node \<Rightarrow> nat \<Rightarrow> chain list"
  and select_inputs_list :: "chain \<Rightarrow> bool \<Rightarrow> node list \<Rightarrow> nat \<Rightarrow> chain list"
where
  "select_inputs anc keyed (Text s) i = []"
| "select_inputs anc keyed (Elem t a kids) i =
     (if keyed \<and> (t = SELECT \<or> t = INPUT) then [(Elem t a kids, i) # anc] else []) @
     select_inputs_list ((Elem t a kids, i) # anc) (keyed \<or> dkey a \<noteq> None) kids 0"
| "select_inputs_list anc keyed [] i = []"
| "select_inputs_list anc keyed (k # ks) i =
     select_inputs anc keyed k i @ select_inputs_list anc keyed ks (Suc i)"

definition querySelectorAll :: "node \<Rightarrow> chain list" where
  "querySelectorAll main = select_inputs_list [] False (children main) 0"

text \<open>
  The walk up the tree, from the element to \<^verbatim>\<open>main\<close>: the path of keys, child
  first, and the pending list index \<open>n\<close>.
\<close>

type_synonym segment = "nat option \<times> string"

fun walk :: "chain \<Rightarrow> segment list \<Rightarrow> nat option \<Rightarrow> segment list \<times> nat option" where
  "walk [] path n = (path, n)"
| "walk ((currentEl, i) # rest) path n =
     (let (path1, n1) =
            (case dkey (attrs_of currentEl) of
               Some k \<Rightarrow> (if k \<noteq> [] then (path @ [(n, k)], None) else (path, n))
             | None \<Rightarrow> (path, n));
          n2 = (if tagName currentEl = Some LI then Some i else n1)
      in walk rest path1 n2)"

text \<open>
  Reading and writing a property of the result object, an element of a result array.
  Writing past the end of an array leaves holes.
\<close>

fun obj_get :: "json \<Rightarrow> string \<Rightarrow> error + json" where
  "obj_get (JObj kvs) k =
     (if inherited k then Inl Unmodelled
      else Inr (case map_of kvs k of Some v \<Rightarrow> v | None \<Rightarrow> JUndef))"
| "obj_get v k = Inl Unmodelled"

fun obj_set :: "json \<Rightarrow> string \<Rightarrow> json \<Rightarrow> error + json" where
  "obj_set (JObj kvs) k v =
     (if inherited k then Inl Unmodelled else Inr (JObj (AList.update k v kvs)))"
| "obj_set c k v = Inl Unmodelled"

fun arr_get :: "json \<Rightarrow> nat \<Rightarrow> error + json" where
  "arr_get (JArr xs) i = Inr (if i < length xs then xs ! i else JUndef)"
| "arr_get v i = Inl Unmodelled"

fun arr_set :: "json \<Rightarrow> nat \<Rightarrow> json \<Rightarrow> error + json" where
  "arr_set (JArr xs) i v = Inr (JArr ((xs @ replicate (Suc i - length xs) JUndef)[i := v]))"
| "arr_set c i v = Inl Unmodelled"

definition or_empty_object :: "json \<Rightarrow> json" where
  "or_empty_object x = (if truthy x then x else JObj [])"

definition or_empty_array :: "json \<Rightarrow> json" where
  "or_empty_array x = (if truthy x then x else JArr [])"

definition or_null :: "json \<Rightarrow> json" where
  "or_null x = (if truthy x then x else JNull)"

text \<open>
  Going down the path to assemble the nested object: \<open>assemble path (pindex, lastk) v
  currentRes\<close> is \<open>currentRes\<close> after the loop over \<open>path\<close> and the assignment of
  \<open>v\<close>, which the program does in place.
\<close>

fun assemble :: "segment list \<Rightarrow> segment \<Rightarrow> json \<Rightarrow> json \<Rightarrow> error + json" where
  "assemble [] (None, lastk) v currentRes = obj_set currentRes lastk v"
| "assemble [] (Some pindex, lastk) v currentRes =
     bind (obj_get currentRes lastk) (\<lambda>a.
     bind (arr_set (or_empty_array a) pindex v) (\<lambda>a1.
       obj_set currentRes lastk a1))"
| "assemble ((None, psegment) # path) l v currentRes =
     bind (obj_get currentRes psegment) (\<lambda>ob.
     bind (assemble path l v (or_empty_object ob)) (\<lambda>ob1.
       obj_set currentRes psegment ob1))"
| "assemble ((Some pindex, psegment) # path) l v currentRes =
     bind (obj_get currentRes psegment) (\<lambda>a.
     bind (arr_get (or_empty_array a) pindex) (\<lambda>e.
     bind (assemble path l v (or_empty_object e)) (\<lambda>e1.
     bind (arr_set (or_empty_array a) pindex e1) (\<lambda>a1.
       obj_set currentRes psegment a1))))"

text \<open>
  The path of an input element: the walk from the element up, reversed to be parent
  first, with a list index that is still pending after the walk put on the last
  segment. An element with no key above it has an empty path; then
  \<^verbatim>\<open>path[path.length - 1][0] = n\<close> or the destructuring of \<^verbatim>\<open>path.pop()\<close> throws.
\<close>

definition input_path :: "chain \<Rightarrow> segment list" where
  "input_path ch =
     (let (path0, n) = walk ch [] None;
          path = rev path0
      in if path = [] then []
         else if n \<noteq> None then butlast path @ [(n, snd (last path))]
         else path)"

text \<open>The body of the loop over the input elements.\<close>

definition add_input :: "chain \<Rightarrow> json \<Rightarrow> error + json" where
  "add_input ch res =
     (let val = (case ch of [] \<Rightarrow> JUndef | (el, i) # rest \<Rightarrow> el_value el);
          path = input_path ch
      in if path = [] then Inl TypeError
         else assemble (butlast path) (last path) (or_null val) res)"

fun for_inputs :: "chain list \<Rightarrow> json \<Rightarrow> error + json" where
  "for_inputs [] res = Inr res"
| "for_inputs (ch # chs) res = bind (add_input ch res) (for_inputs chs)"

definition allInputsToConfigObject :: "node \<Rightarrow> error + json" where
  "allInputsToConfigObject main = for_inputs (querySelectorAll main) (JObj [])"

section \<open>The page: global state, requests, output items\<close>

datatype request = Get string | Post string "(string \<times> string) list" string

text \<open>
  A response body as the program uses it: parsed JSON, typed as the global it is assigned
  to, or text.
\<close>

datatype document =
    JsonDoc json
  | DescriptionsDoc descriptions
  | SelectsDoc selects
  | DefaultsDoc defaults
  | ConfigsDoc "(string \<times> string) list"
  | TextDoc string

text \<open>The link of a download: the placeholder \<^verbatim>\<open>blob:\<close>, or the URL of a blob by its content and type.\<close>

datatype href = Placeholder | ObjectURL string string

text \<open>
  What \<^verbatim>\<open>createOutputItem\<close> returns, by the properties that the program sets: the
  item (\<^verbatim>\<open>open\<close>), the button (\<^verbatim>\<open>style.display\<close>), the link and the
  \<^verbatim>\<open>pre\<close> element.
\<close>

record output_item =
  item_name :: string
  item_description :: string
  item_open :: bool
  btn_display :: string
  dl_innerText :: string
  dl_href :: href
  dl_download :: "string option"
  pre_innerText :: string
  pre_classList :: "string list"

record app =
  main_el :: node
  structure_doc :: json
  ui_docs :: docs
  selects_doc :: selects
  all_configs :: "(string \<times> string) list"
  default_config_name :: string
  current_config :: json
  i_inp_value :: string
  out_json :: output_item
  out_sparql :: output_item
  requests :: "request list"

definition createOutputItem :: "string \<Rightarrow> string \<Rightarrow> output_item" where
  "createOutputItem name description =
     \<lparr>item_name = name, item_description = description, item_open = False,
      btn_display = ''none'', dl_innerText = ''Download'', dl_href = Placeholder,
      dl_download = None,
      pre_innerText = ''Please click 'Compose Query' first.'', pre_classList = []\<rparr>"

definition createOutputItems :: "app \<Rightarrow> app" where
  "createOutputItems a =
     a\<lparr>out_json := createOutputItem ''Output JSON''
                      ''The compose spatial config json for the current settings.'',
       out_sparql := createOutputItem ''Output SPARQL'' ''The result SPARQL query.''\<rparr>"

subsection \<open>Loading the documents\<close>

text \<open>
  \<open>srv url\<close> is the body that the server returns for \<open>url\<close>, \<open>None\<close> when the
  request or the parsing fails. Every \<^verbatim>\<open>fetch\<close> is recorded in \<open>requests\<close>.
\<close>

definition fetch :: "(string \<Rightarrow> document option) \<Rightarrow> string \<Rightarrow> app \<Rightarrow> document option \<times> app" where
  "fetch srv url a = (srv url, a\<lparr>requests := requests a @ [Get url]\<rparr>)"

text \<open>
  One \<^verbatim>\<open>x = await ...\<close> of \<^verbatim>\<open>loadUIConfig\<close>: \<open>assign\<close> stores the document in its
  global when it has the type of that global. The rest of the function runs only when
  the statement succeeds; the state reached so far stays.
\<close>

definition awaiting ::
    "(string \<Rightarrow> document option) \<Rightarrow> string \<Rightarrow> (document \<Rightarrow> app \<Rightarrow> app option) \<Rightarrow>
     (app \<Rightarrow> error option \<times> app) \<Rightarrow> app \<Rightarrow> error option \<times> app" where
  "awaiting srv url assign rest a =
     (case fetch srv url a of
        (None, a1) \<Rightarrow> (Some FetchFailed, a1)
      | (Some doc, a1) \<Rightarrow>
          (case assign doc a1 of None \<Rightarrow> (Some Unmodelled, a1) | Some a2 \<Rightarrow> rest a2))"

fun set_structure :: "document \<Rightarrow> app \<Rightarrow> app option" where
  "set_structure (JsonDoc j) a = Some (a\<lparr>structure_doc := j\<rparr>)"
| "set_structure doc a = None"

fun set_descriptions :: "document \<Rightarrow> app \<Rightarrow> app option" where
  "set_descriptions (DescriptionsDoc ds) a = Some (a\<lparr>ui_docs := (ui_docs a)\<lparr>descriptions := ds\<rparr>\<rparr>)"
| "set_descriptions doc a = None"

fun set_selects :: "document \<Rightarrow> app \<Rightarrow> app option" where
  "set_selects (SelectsDoc sl) a = Some (a\<lparr>selects_doc := sl\<rparr>)"
| "set_selects doc a = None"

fun set_defaults :: "document \<Rightarrow> app \<Rightarrow> app option" where
  "set_defaults (DefaultsDoc df) a = Some (a\<lparr>ui_docs := (ui_docs a)\<lparr>defaults := df\<rparr>\<rparr>)"
| "set_defaults doc a = None"

fun set_all_configs :: "document \<Rightarrow> app \<Rightarrow> app option" where
  "set_all_configs (ConfigsDoc cs) a = Some (a\<lparr>all_configs := cs\<rparr>)"
| "set_all_configs doc a = None"

fun set_default_config_name :: "document \<Rightarrow> app \<Rightarrow> app option" where
  "set_default_config_name (TextDoc t) a = Some (a\<lparr>default_config_name := t\<rparr>)"
| "set_default_config_name doc a = None"

fun set_current_config :: "document \<Rightarrow> app \<Rightarrow> app option" where
  "set_current_config (JsonDoc j) a = Some (a\<lparr>current_config := j\<rparr>)"
| "set_current_config doc a = None"

definition loadUIConfig :: "(string \<Rightarrow> document option) \<Rightarrow> app \<Rightarrow> error option \<times> app" where
  "loadUIConfig srv =
     awaiting srv ''/structure.json'' set_structure
    (awaiting srv ''/descriptions.json'' set_descriptions
    (awaiting srv ''/selects.json'' set_selects
    (awaiting srv ''/defaults.json'' set_defaults
    (awaiting srv ''/configs.json'' set_all_configs
    (awaiting srv ''/default_input'' set_default_config_name
    (\<lambda>a. awaiting srv (''/'' @ default_config_name a) set_current_config
           (\<lambda>a1. (None, a1)) a))))))"

text \<open>
  \<^verbatim>\<open>loadDocStructureFromObject\<close>: the form for the structure document and \<open>data\<close>,
  built into \<^verbatim>\<open>main\<close>.
\<close>

definition loadDocStructureFromObject :: "json \<Rightarrow> app \<Rightarrow> error + app" where
  "loadDocStructureFromObject data a =
     bind (createItemsRecursively (ui_docs a) [] (main_el a) (structure_doc a) data (selects_doc a))
       (\<lambda>r. Inr (a\<lparr>main_el := fst r, selects_doc := snd r\<rparr>))"

subsection \<open>Generating the configuration and composing the query\<close>

text \<open>
  \<open>stringify\<close> stands for \<^verbatim>\<open>JSON.stringify(result, null, 2)\<close>, which belongs to the
  platform.
\<close>

definition generateConfig :: "(json \<Rightarrow> string) \<Rightarrow> app \<Rightarrow> error + string \<times> app" where
  "generateConfig stringify a =
     bind (allInputsToConfigObject (main_el a)) (\<lambda>result.
       let res_json = stringify result;
           json_fn = (if i_inp_value a \<noteq> ''blank_compose.json'' then i_inp_value a
                      else ''compose_spatial.json'')
       in Inr (res_json,
               a\<lparr>out_json := (out_json a)
                    \<lparr>pre_innerText := res_json,
                     dl_href := ObjectURL res_json ''application/json'',
                     dl_download := Some json_fn,
                     dl_innerText := ''Download '' @ json_fn,
                     btn_display := []\<rparr>\<rparr>))"

text \<open>
  The result of the request: the status and the text of a response, or the rejection of
  the \<^verbatim>\<open>fetch\<close>, which \<^verbatim>\<open>catch(_id)\<close> turns into the value of the promise.
\<close>

datatype outcome = Response nat string | Rejected string

definition composeQueryRequest :: "(request \<Rightarrow> outcome) \<Rightarrow> string \<Rightarrow> app \<Rightarrow> outcome \<times> app" where
  "composeQueryRequest net res_json a =
     (let rq = Post ''/compose''
                 [(''Accept'', ''application/sparql-query''), (''Content-Type'', ''application/json'')]
                 res_json
      in (net rq, a\<lparr>requests := requests a @ [rq]\<rparr>))"

text \<open>\<^verbatim>\<open>res?.[0] == 200\<close> and \<^verbatim>\<open>res?.[1]\<close>: an error object has neither property.\<close>

fun res_ok :: "outcome \<Rightarrow> bool" where
  "res_ok (Response status body) = (status = 200)"
| "res_ok (Rejected e) = False"

fun res_text :: "outcome \<Rightarrow> string option" where
  "res_text (Response status body) = Some body"
| "res_text (Rejected e) = None"

text \<open>The string that \<^verbatim>\<open>innerText = s\<close> and \<^verbatim>\<open>new Blob([s])\<close> make of \<open>s\<close>.\<close>

definition to_string :: "string option \<Rightarrow> string" where
  "to_string s = (case s of Some t \<Rightarrow> t | None \<Rightarrow> ''undefined'')"

definition startsWith :: "string \<Rightarrow> string \<Rightarrow> bool" where
  "startsWith s p = (take (length p) s = p)"

text \<open>\<^verbatim>\<open>s.replace(pat, rep)\<close> for a string pattern: the first occurrence only.\<close>

fun replace :: "string \<Rightarrow> string \<Rightarrow> string \<Rightarrow> string" where
  "replace [] pat rep = (if pat = [] then rep else [])"
| "replace (c # cs) pat rep =
     (if startsWith (c # cs) pat then rep @ drop (length pat) (c # cs)
      else c # replace cs pat rep)"

definition compose :: "(json \<Rightarrow> string) \<Rightarrow> (request \<Rightarrow> outcome) \<Rightarrow> app \<Rightarrow> error + app" where
  "compose stringify net a =
     (let a1 = a\<lparr>out_sparql := (out_sparql a)
                   \<lparr>pre_classList := removeAll ''error'' (pre_classList (out_sparql a)),
                    btn_display := []\<rparr>\<rparr>
      in bind (generateConfig stringify a1) (\<lambda>g.
           let (res, a2) = composeQueryRequest net (fst g) (snd g);
               ok = res_ok res;
               s = res_text res;
               o2 = out_sparql a2;
               o3 = (if \<not> ok
                     then o2\<lparr>pre_classList :=
                               (if ''error'' \<in> set (pre_classList o2) then pre_classList o2
                                else pre_classList o2 @ [''error'']),
                             btn_display := ''none''\<rparr>
                     else o2);
               rq_fn = (if i_inp_value a2 \<noteq> ''blank_compose.json''
                        then replace (replace (i_inp_value a2) ''_compose'' []) ''.json'' ''.rq''
                        else ''compose_spatial.rq'')
           in Inr (a2\<lparr>out_sparql := o3
                        \<lparr>pre_innerText := to_string s,
                         item_open := True,
                         dl_href := ObjectURL (to_string s) ''application/sparql-query'',
                         dl_download := Some rq_fn,
                         dl_innerText := ''Download '' @ rq_fn\<rparr>\<rparr>)))"

section \<open>Notions for the properties\<close>


text \<open>
  A serialized value whose leaves are null, a non-empty string or a non-zero number. A
  hole of an array is no element of it.
\<close>

fun clean :: "json \<Rightarrow> bool"
  and clean_elements :: "json list \<Rightarrow> bool"
  and clean_properties :: "(string \<times> json) list \<Rightarrow> bool"
where
  "clean JNull = True"
| "clean (JStr s) = (s \<noteq> [])"
| "clean (JNum n) = (n \<noteq> 0)"
| "clean (JBool b) = False"
| "clean JUndef = False"
| "clean (JArr xs) = clean_elements xs"
| "clean (JObj kvs) = clean_properties kvs"
| "clean_elements [] = True"
| "clean_elements (x # xs) = ((x = JUndef \<or> clean x) \<and> clean_elements xs)"
| "clean_properties [] = True"
| "clean_properties (kv # kvs) = (clean (snd kv) \<and> clean_properties kvs)"


fun height :: "node \<Rightarrow> nat" where
  "height (Text s) = 0"
| "height (Elem t a kids) = Suc (fold max (map height kids) 0)"


fun node_at :: "node list \<Rightarrow> nat list \<Rightarrow> node option" where
  "node_at kids [] = None"
| "node_at kids [i] = (if i < length kids then Some (kids ! i) else None)"
| "node_at kids (i # j # js) =
     (if i < length kids then node_at (children (kids ! i)) (j # js) else None)"


subsection \<open>The serializer as a run of stores\<close>

text \<open>
  What the loop of the serializer does for one input element: it stores the value \<open>v\<close>
  at the path \<open>p\<close>.
\<close>

definition step_of :: "chain \<Rightarrow> segment list \<times> json" where
  "step_of ch =
     (input_path ch, or_null (case ch of [] \<Rightarrow> JUndef | (el, i) # rest \<Rightarrow> el_value el))"

definition store :: "segment list \<Rightarrow> json \<Rightarrow> json \<Rightarrow> error + json" where
  "store p v res = (if p = [] then Inl TypeError else assemble (butlast p) (last p) v res)"

fun run :: "(segment list \<times> json) list \<Rightarrow> json \<Rightarrow> error + json" where
  "run [] res = Inr res"
| "run (pv # S) res = bind (store (fst pv) (snd pv) res) (run S)"

text \<open>
  \<open>within P g cur\<close> goes down the path \<open>P\<close> from \<open>cur\<close> the way \<open>assemble\<close> does,
  creating what is missing, and applies \<open>g\<close> to the object there.
\<close>

fun within :: "segment list \<Rightarrow> (json \<Rightarrow> error + json) \<Rightarrow> json \<Rightarrow> error + json" where
  "within [] g cur = g cur"
| "within ((None, k) # P) g cur =
     bind (obj_get cur k) (\<lambda>ob.
     bind (within P g (or_empty_object ob)) (\<lambda>ob1.
       obj_set cur k ob1))"
| "within ((Some i, k) # P) g cur =
     bind (obj_get cur k) (\<lambda>a.
     bind (arr_get (or_empty_array a) i) (\<lambda>e.
     bind (within P g (or_empty_object e)) (\<lambda>e1.
     bind (arr_set (or_empty_array a) i e1) (\<lambda>a1.
       obj_set cur k a1))))"

definition prefixed :: "segment list \<Rightarrow> segment list \<times> json \<Rightarrow> segment list \<times> json" where
  "prefixed P qv = (P @ fst qv, snd qv)"

subsection \<open>Forms that the serializer reads as they are meant\<close>

fun has_control :: "node \<Rightarrow> bool"
  and has_control_list :: "node list \<Rightarrow> bool"
where
  "has_control (Text s) = False"
| "has_control (Elem t a kids) = (t = SELECT \<or> t = INPUT \<or> has_control_list kids)"
| "has_control_list [] = False"
| "has_control_list (k # ks) = (has_control k \<or> has_control_list ks)"

definition ordinary :: "string \<Rightarrow> bool" where
  "ordinary k = (k \<noteq> [] \<and> \<not> inherited k)"

definition plain_tag :: "tag \<Rightarrow> bool" where
  "plain_tag t = (t \<noteq> LI \<and> t \<noteq> SELECT \<and> t \<noteq> INPUT)"

text \<open>The children \<open>kids\<close> hold the control \<open>c\<close> and no other.\<close>

definition single_control :: "node list \<Rightarrow> node \<Rightarrow> bool" where
  "single_control kids c =
     (\<exists>pre post t a cs.
        kids = pre @ c # post \<and> \<not> has_control_list pre \<and> \<not> has_control_list post \<and>
        c = Elem t a cs \<and> (t = SELECT \<or> t = INPUT) \<and> dkey a = None \<and> \<not> has_control_list cs)"

text \<open>
  The forms whose paths do not collide, with the configuration that each denotes.
  \<open>fields ns ps\<close>: the children \<open>ns\<close> of the form or of an item are elements without
  controls and items with pairwise different keys, and \<open>ps\<close> are the properties of the
  items that hold a control. \<open>content kids v\<close>: the children of an item or of a list
  entry hold one control, with the value \<open>v\<close>, or the fields of the object \<open>v\<close>.
  \<open>entries lis vs\<close>: the children of a list are list entries, each with an item that
  holds a control, and \<open>vs\<close> are their values.
\<close>

inductive fields :: "node list \<Rightarrow> (string \<times> json) list \<Rightarrow> bool"
  and content :: "node list \<Rightarrow> json \<Rightarrow> bool"
  and entries :: "node list \<Rightarrow> json list \<Rightarrow> bool"
where
  fields_Nil: "fields [] []"
| fields_inert: "\<not> has_control n \<Longrightarrow> fields ns ps \<Longrightarrow> fields (n # ns) ps"
| fields_item:
    "ordinary k \<Longrightarrow> plain_tag t \<Longrightarrow> dkey a = Some k \<Longrightarrow> content kids v \<Longrightarrow>
     fields ns ps \<Longrightarrow> k \<notin> fst ` set ps \<Longrightarrow>
     fields (Elem t a kids # ns) ((k, v) # ps)"
| fields_list:
    "ordinary k \<Longrightarrow> plain_tag t \<Longrightarrow> dkey a = Some k \<Longrightarrow>
     \<not> has_control_list pre \<Longrightarrow> \<not> has_control_list post \<Longrightarrow>
     plain_tag lt \<Longrightarrow> dkey la = None \<Longrightarrow> entries lis vs \<Longrightarrow> vs \<noteq> [] \<Longrightarrow>
     fields ns ps \<Longrightarrow> k \<notin> fst ` set ps \<Longrightarrow>
     fields (Elem t a (pre @ Elem lt la lis # post) # ns) ((k, JArr vs) # ps)"
| content_leaf: "single_control kids c \<Longrightarrow> content kids (or_null (el_value c))"
| content_object: "fields kids ps \<Longrightarrow> ps \<noteq> [] \<Longrightarrow> content kids (JObj ps)"
| entries_Nil: "entries [] []"
| entries_Cons:
    "dkey la = None \<Longrightarrow> plain_tag bt \<Longrightarrow> dkey ba = None \<Longrightarrow> content bkids v \<Longrightarrow>
     entries lis vs \<Longrightarrow>
     entries (Elem LI la [Elem bt ba bkids] # lis) (v # vs)"

text \<open>
  \<open>context anc P\<close>: the walk up through the ancestors \<open>anc\<close> adds the segments of \<open>P\<close>
  and leaves no list index pending.
\<close>

definition context_of :: "chain \<Rightarrow> segment list \<Rightarrow> bool" where
  "context_of anc P = (\<forall>p. walk anc p None = (p @ rev P, None))"

section \<open>Sample page states\<close>

definition sample_main :: node where
  "sample_main =
     Elem DIV blank
       [Elem DIV (blank\<lparr>dkey := Some ''a'', classes := [''sitem'']\<rparr>)
          [Elem INPUT (blank\<lparr>control := TextInput ''x''\<rparr>) []]]"


definition sample_app :: app where
  "sample_app =
     createOutputItems
       \<lparr>main_el = sample_main, structure_doc = JObj [(''a'', JStr [])],
        ui_docs = \<lparr>descriptions = [], defaults = []\<rparr>, selects_doc = [],
        all_configs = [], default_config_name = ''blank_compose.json'',
        current_config = JObj [], i_inp_value = ''blank_compose.json'',
        out_json = createOutputItem [] [], out_sparql = createOutputItem [] [],
        requests = []\<rparr>"

definition sample_server :: "string \<Rightarrow> document option" where
  "sample_server url =
     (if url = ''/structure.json'' then Some (JsonDoc (JObj [(''a'', JStr [])]))
      else if url = ''/descriptions.json'' then Some (DescriptionsDoc [])
      else if url = ''/selects.json'' then Some (SelectsDoc [])
      else if url = ''/defaults.json'' then Some (DefaultsDoc [])
      else if url = ''/configs.json'' then Some (ConfigsDoc [(''blank_compose.json'', [])])
      else if url = ''/default_input'' then Some (TextDoc ''blank_compose.json'')
      else if url = ''/blank_compose.json'' then Some (JsonDoc (JObj [(''a'', JStr [])]))
      else None)"

definition sample_stringify :: "json \<Rightarrow> string" where
  "sample_stringify j = (if j = JObj [(''a'', JStr ''x'')] then ''{ a: x }'' else ''{}'')"

definition compose_headers :: "(string \<times> string) list" where
  "compose_headers =
     [(''Accept'', ''application/sparql-query''), (''Content-Type'', ''application/json'')]"

section \<open>Properties\<close>

subsection \<open>Auxiliary facts\<close>



lemma clean_properties_iff: "clean_properties kvs \<longleftrightarrow> (\<forall>kv\<in>set kvs. clean (snd kv))"
  by (induction kvs) auto




























lemma fold_max_mono: "m \<le> fold max (map height ks) m"
  by (induction ks arbitrary: m) (auto intro: order_trans [OF max.cobounded2])







subsection \<open>Loading the documents\<close>

text \<open>
  Claim C2, as amended. When the server answers every request, \<^verbatim>\<open>loadUIConfig\<close>
  fetches the four schema documents (structure, descriptions, selects, defaults) in this
  order and then three more resources: the list of configurations, the name of the
  default configuration and that configuration. These seven requests are all it sends.
\<close>

theorem loadUIConfig_fetches:
  assumes "srv ''/structure.json'' = Some (JsonDoc st)"
      and "srv ''/descriptions.json'' = Some (DescriptionsDoc ds)"
      and "srv ''/selects.json'' = Some (SelectsDoc sl)"
      and "srv ''/defaults.json'' = Some (DefaultsDoc df)"
      and "srv ''/configs.json'' = Some (ConfigsDoc cs)"
      and "srv ''/default_input'' = Some (TextDoc name)"
      and "srv (''/'' @ name) = Some (JsonDoc cfg)"
  shows "fst (loadUIConfig srv a) = None \<and>
         requests (snd (loadUIConfig srv a)) =
           requests a @
             [Get ''/structure.json'', Get ''/descriptions.json'', Get ''/selects.json'',
              Get ''/defaults.json'', Get ''/configs.json'', Get ''/default_input'',
              Get (''/'' @ name)]"
  using assms by (simp add: loadUIConfig_def awaiting_def fetch_def)

theorem loadUIConfig_fetches_witness:
  "fst (loadUIConfig sample_server sample_app) = None \<and>
   requests (snd (loadUIConfig sample_server sample_app)) =
     [Get ''/structure.json'', Get ''/descriptions.json'', Get ''/selects.json'',
      Get ''/defaults.json'', Get ''/configs.json'', Get ''/default_input'',
      Get ''/blank_compose.json'']"
  using loadUIConfig_fetches [of sample_server "JObj [(''a'', JStr [])]" "[]" "[]" "[]"
      "[(''blank_compose.json'', [])]" "''blank_compose.json''" "JObj [(''a'', JStr [])]" sample_app]
  by (simp add: sample_server_def sample_app_def createOutputItems_def)

text \<open>
  Claim C2 as stated fails: on a server that answers, the requests are not the four
  fetches of the schema documents; there are seven.
\<close>

theorem loadUIConfig_four_fetches_counterexample:
  "requests (snd (loadUIConfig sample_server sample_app)) \<noteq>
     [Get ''/structure.json'', Get ''/descriptions.json'', Get ''/selects.json'',
      Get ''/defaults.json''] \<and>
   length (requests (snd (loadUIConfig sample_server sample_app))) = 7"
  by (simp add: loadUIConfig_def awaiting_def fetch_def sample_server_def sample_app_def
      createOutputItems_def)

subsection \<open>Composing the query\<close>

lemma sample_main_config:
  "allInputsToConfigObject sample_main = Inr (JObj [(''a'', JStr ''x'')])"
  by (simp add: allInputsToConfigObject_def querySelectorAll_def sample_main_def blank_def
      add_input_def input_path_def bind_def or_null_def inherited_def object_prototype_names_def)

text \<open>
  Claim C3. \<^verbatim>\<open>compose\<close> sends the serialized configuration in one POST request to
  \<^verbatim>\<open>/compose\<close>. When the response has status 200, the text of the response is what
  the output shows and what the download link holds, the output is not marked as an
  error and the download button is visible. Whatever the network returns, the text shown
  is the one of the result of the request: none is made locally.
\<close>

theorem compose_shows_response:
  assumes "allInputsToConfigObject (main_el a) = Inr result"
      and "net (Post ''/compose'' compose_headers (stringify result)) = Response 200 body"
  shows "(\<exists>b. compose stringify net a = Inr b \<and>
           requests b = requests a @ [Post ''/compose'' compose_headers (stringify result)] \<and>
           pre_innerText (out_sparql b) = body \<and>
           ''error'' \<notin> set (pre_classList (out_sparql b)) \<and>
           btn_display (out_sparql b) = [] \<and>
           dl_href (out_sparql b) = ObjectURL body ''application/sparql-query'' \<and>
           item_open (out_sparql b)) \<and>
         (\<forall>other. \<exists>b. compose stringify other a = Inr b \<and>
           pre_innerText (out_sparql b) =
             to_string (res_text (other (Post ''/compose'' compose_headers (stringify result)))))"
  using assms
  by (simp add: compose_def generateConfig_def composeQueryRequest_def bind_def Let_def
      compose_headers_def to_string_def)

theorem compose_shows_response_witness:
  "\<exists>b. compose sample_stringify (\<lambda>rq. Response 200 ''SELECT * WHERE {}'') sample_app = Inr b \<and>
       requests b = [Post ''/compose'' compose_headers ''{ a: x }''] \<and>
       pre_innerText (out_sparql b) = ''SELECT * WHERE {}'' \<and>
       ''error'' \<notin> set (pre_classList (out_sparql b)) \<and>
       btn_display (out_sparql b) = [] \<and>
       dl_href (out_sparql b) = ObjectURL ''SELECT * WHERE {}'' ''application/sparql-query'' \<and>
       item_open (out_sparql b)"
  using compose_shows_response [of sample_app "JObj [(''a'', JStr ''x'')]"
      "\<lambda>rq. Response 200 ''SELECT * WHERE {}''" sample_stringify "''SELECT * WHERE {}''"]
    sample_main_config
  by (auto simp add: sample_app_def createOutputItems_def sample_stringify_def)

text \<open>
  Claim C4, as amended. When the request fails (a response with a status other than 200,
  or a rejected \<^verbatim>\<open>fetch\<close>), the output is marked as an error and the download
  button is hidden; one request was sent and no other; the form, the documents and the
  JSON output that \<^verbatim>\<open>generateConfig\<close> produced for this request stay as they are.
  For a response, the text shown is the text of the response.
\<close>

theorem compose_failure:
  assumes "allInputsToConfigObject (main_el a) = Inr result"
      and "\<not> res_ok (net (Post ''/compose'' compose_headers (stringify result)))"
  shows "\<exists>b g. compose stringify net a = Inr b \<and>
           generateConfig stringify a = Inr (stringify result, g) \<and>
           ''error'' \<in> set (pre_classList (out_sparql b)) \<and>
           btn_display (out_sparql b) = ''none'' \<and>
           requests b = requests a @ [Post ''/compose'' compose_headers (stringify result)] \<and>
           main_el b = main_el a \<and> selects_doc b = selects_doc a \<and> ui_docs b = ui_docs a \<and>
           structure_doc b = structure_doc a \<and> i_inp_value b = i_inp_value a \<and>
           out_json b = out_json g \<and>
           (case net (Post ''/compose'' compose_headers (stringify result)) of
              Response status body \<Rightarrow> pre_innerText (out_sparql b) = body
            | Rejected e \<Rightarrow> True)"
  using assms
  by (cases "net (Post ''/compose'' compose_headers (stringify result))")
     (simp_all add: compose_def generateConfig_def composeQueryRequest_def bind_def Let_def
      compose_headers_def to_string_def)

theorem compose_failure_witness:
  "\<exists>b g. compose sample_stringify (\<lambda>rq. Response 400 ''Bad Request'') sample_app = Inr b \<and>
       generateConfig sample_stringify sample_app = Inr (''{ a: x }'', g) \<and>
       ''error'' \<in> set (pre_classList (out_sparql b)) \<and>
       btn_display (out_sparql b) = ''none'' \<and>
       requests b = [Post ''/compose'' compose_headers ''{ a: x }''] \<and>
       main_el b = sample_main \<and>
       out_json b = out_json g \<and>
       pre_innerText (out_sparql b) = ''Bad Request''"
  using compose_failure [of sample_app "JObj [(''a'', JStr ''x'')]"
      "\<lambda>rq. Response 400 ''Bad Request''" sample_stringify]
    sample_main_config
  by (auto simp add: sample_app_def createOutputItems_def sample_stringify_def)

text \<open>
  Claim C4 as stated fails for a network error: there is no response, and the text shown
  is neither a response text nor the message of the error, but \<^verbatim>\<open>undefined\<close>.
\<close>

theorem compose_network_error_counterexample:
  "\<exists>b. compose sample_stringify (\<lambda>rq. Rejected ''NetworkError when attempting to fetch resource.'')
         sample_app = Inr b \<and>
       pre_innerText (out_sparql b) = ''undefined''"
  using sample_main_config
  by (simp add: compose_def generateConfig_def composeQueryRequest_def bind_def Let_def
      to_string_def sample_app_def createOutputItems_def)

subsection \<open>The serializer\<close>











end
